theory Spec2Isabelle
  imports Main
begin

section \<open>Package azauth: credential chain and retrying managed-identity credential\<close>

text \<open>
  The development embeds \<^verbatim>\<open>azauth/token.go\<close>. Everything the file imports from other
  modules (the Go standard library, azcore, azidentity, cockroachdb/errors) is either a
  parameter of the embedded functions or a small model of the documented behaviour of the
  imported function, named after it. Log statements (zerolog) have no effect on control
  flow or results and are left out.
\<close>

subsection \<open>Error values\<close>

text \<open>
  A Go \<^verbatim>\<open>error\<close> is an interface value; \<^verbatim>\<open>nil\<close> is \<open>None\<close> of \<open>error option\<close>. The
  constructors are the dynamic types that \<^verbatim>\<open>token.go\<close> creates or inspects:
  \<^verbatim>\<open>*azidentity.AuthenticationFailedError\<close>, the credential-unavailable error made by
  \<^verbatim>\<open>azidentity.NewCredentialUnavailableError\<close>, a plain \<^verbatim>\<open>errors.New\<close> message (also
  standing for any other leaf error such as \<^verbatim>\<open>context.DeadlineExceeded\<close>), the result of
  \<^verbatim>\<open>errors.Wrap\<close> and the result of \<^verbatim>\<open>errors.Join\<close>.
\<close>

datatype error =
    AuthenticationFailedError string
  | CredentialUnavailableError string
  | ErrorString string
  | Wrapped string error
  | JoinError "error list"

fun join_lines :: "string list \<Rightarrow> string" where
  "join_lines [] = []"
| "join_lines [s] = s"
| "join_lines (s # t # ss) = s @ [CHR 0x0A] @ join_lines (t # ss)"

text \<open>The method \<^verbatim>\<open>Error() string\<close>.\<close>

fun Error :: "error \<Rightarrow> string" where
  "Error (AuthenticationFailedError m) = m"
| "Error (CredentialUnavailableError m) = m"
| "Error (ErrorString m) = m"
| "Error (Wrapped m e) = m @ '': '' @ Error e"
| "Error (JoinError es) = join_lines (map Error es)"

text \<open>
  \<^verbatim>\<open>errors.As(err, &authFailedErr)\<close> with \<^verbatim>\<open>authFailedErr\<close> of type
  \<^verbatim>\<open>*azidentity.AuthenticationFailedError\<close>: is there an error of that type in the tree
  of causes of \<^verbatim>\<open>err\<close>?
\<close>

fun errors_As_AuthenticationFailedError :: "error \<Rightarrow> bool" where
  "errors_As_AuthenticationFailedError (AuthenticationFailedError m) = True"
| "errors_As_AuthenticationFailedError (CredentialUnavailableError m) = False"
| "errors_As_AuthenticationFailedError (ErrorString m) = False"
| "errors_As_AuthenticationFailedError (Wrapped m e) = errors_As_AuthenticationFailedError e"
| "errors_As_AuthenticationFailedError (JoinError es) =
     list_ex errors_As_AuthenticationFailedError es"

text \<open>
  \<^verbatim>\<open>errors.Join(errs...)\<close>: \<^verbatim>\<open>nil\<close> when there is no error to join, else one error
  holding all of them in the given order. The slice built by \<^verbatim>\<open>GetToken\<close> holds non-nil
  errors only, so the argument is an \<open>error list\<close>.
\<close>

definition errors_Join :: "error list \<Rightarrow> error option" where
  "errors_Join errs = (if errs = [] then None else Some (JoinError errs))"

text \<open>\<^verbatim>\<open>errors.Wrap(err, msg)\<close> for a non-nil \<^verbatim>\<open>err\<close>.\<close>

definition errors_Wrap :: "error \<Rightarrow> string \<Rightarrow> error" where
  "errors_Wrap err msg = Wrapped msg err"

definition NewCredentialUnavailableError :: "string \<Rightarrow> error" where
  "NewCredentialUnavailableError message = CredentialUnavailableError message"

subsection \<open>Strings\<close>

fun strings_HasPrefix :: "string \<Rightarrow> string \<Rightarrow> bool" where
  "strings_HasPrefix s [] = True"
| "strings_HasPrefix [] (p # ps) = False"
| "strings_HasPrefix (c # cs) (p # ps) = (c = p \<and> strings_HasPrefix cs ps)"

text \<open>\<^verbatim>\<open>strings.Contains(s, substr)\<close>: \<^verbatim>\<open>substr\<close> occurs in \<^verbatim>\<open>s\<close>.\<close>

fun strings_Contains :: "string \<Rightarrow> string \<Rightarrow> bool" where
  "strings_Contains [] substr = (substr = [])"
| "strings_Contains (c # cs) substr =
     (strings_HasPrefix (c # cs) substr \<or> strings_Contains cs substr)"

subsection \<open>Contexts and the clock\<close>

text \<open>
  Instants and durations are integers (nanoseconds). Of a \<^verbatim>\<open>context.Context\<close> the model
  keeps the deadline: \<open>None\<close> when \<^verbatim>\<open>Deadline()\<close> reports \<^verbatim>\<open>ok == false\<close>.
\<close>

record Context =
  Deadline :: "int option"

definition context_Background :: Context where
  "context_Background = \<lparr>Deadline = None\<rparr>"

text \<open>
  \<^verbatim>\<open>context.WithDeadline(parent, d)\<close>: when the parent's deadline is already earlier
  than \<^verbatim>\<open>d\<close> the result has the parent's deadline, otherwise its deadline is \<^verbatim>\<open>d\<close>.
  \<^verbatim>\<open>context.WithTimeout(parent, timeout)\<close> is
  \<^verbatim>\<open>WithDeadline(parent, time.Now().Add(timeout))\<close>; the first argument of the model is
  the reading of \<^verbatim>\<open>time.Now()\<close>.
\<close>

definition context_WithDeadline :: "Context \<Rightarrow> int \<Rightarrow> Context" where
  "context_WithDeadline parent d =
     (case Deadline parent of
        Some cur \<Rightarrow> if cur < d then parent else parent\<lparr>Deadline := Some d\<rparr>
      | None \<Rightarrow> parent\<lparr>Deadline := Some d\<rparr>)"

definition context_WithTimeout :: "int \<Rightarrow> Context \<Rightarrow> int \<Rightarrow> Context" where
  "context_WithTimeout now parent timeout = context_WithDeadline parent (now + timeout)"

subsection \<open>Tokens, request options and the underlying credential\<close>

record AccessToken =
  Token :: string
  ExpiresOn :: int

text \<open>The zero value \<^verbatim>\<open>azcore.AccessToken{}\<close>.\<close>

definition AccessToken_zero :: AccessToken where
  "AccessToken_zero = \<lparr>Token = [], ExpiresOn = 0\<rparr>"

record TokenRequestOptions =
  Scopes :: "string list"

text \<open>
  One call of \<^verbatim>\<open>GetToken\<close> on the underlying \<^verbatim>\<open>azidentity.ManagedIdentityCredential\<close>,
  as the world records it: the context and options it was given and the pair it returned.
\<close>

record invocation =
  inv_ctx :: Context
  inv_opts :: TokenRequestOptions
  inv_result :: "AccessToken \<times> error option"

text \<open>
  The world outside the wrapper: the clock read by \<^verbatim>\<open>time.Now()\<close> and the calls made so
  far to the underlying credential, oldest first.
\<close>

record world =
  clock :: int
  invocations :: "invocation list"

text \<open>
  \<^verbatim>\<open>ManagedIdentityCredential.GetToken\<close> belongs to azidentity and talks to the identity
  endpoint. Its behaviour is a parameter: from the credential, the world at the moment of
  the call (so the answer may depend on the time and on all earlier calls), the context
  and the options, it gives the returned pair and the time the call took.
\<close>

type_synonym 'm mic_behaviour =
  "'m \<Rightarrow> world \<Rightarrow> Context \<Rightarrow> TokenRequestOptions \<Rightarrow> (AccessToken \<times> error option) \<times> nat"

definition mic_GetToken ::
  "'m mic_behaviour \<Rightarrow> 'm \<Rightarrow> Context \<Rightarrow> TokenRequestOptions \<Rightarrow> world
     \<Rightarrow> (AccessToken \<times> error option) \<times> world" where
  "mic_GetToken B m c opts w =
     (case B m w c opts of
        (r, elapsed) \<Rightarrow>
          (r, w\<lparr>clock := clock w + int elapsed,
                invocations := invocations w @ [\<lparr>inv_ctx = c, inv_opts = opts, inv_result = r\<rparr>]\<rparr>))"

subsection \<open>retryableManagedIdentityCredential\<close>

text \<open>
  The struct; \<^verbatim>\<open>attempts\<close> is a Go \<^verbatim>\<open>int\<close> and \<^verbatim>\<open>timeout\<close> a \<^verbatim>\<open>time.Duration\<close>. The only
  arithmetic on them is the comparison with a constant and the loop counter, which stays
  below \<^verbatim>\<open>attempts\<close>, so unbounded integers lose nothing.
\<close>

record 'm retryableManagedIdentityCredential =
  mic :: 'm
  attempts :: int
  timeout :: int

text \<open>
  \<^verbatim>\<open>tryGetToken\<close>. The method has a pointer receiver and assigns to \<^verbatim>\<open>t.timeout\<close>, so the
  model returns the receiver next to the result. Line 283 rebinds \<^verbatim>\<open>ctx\<close>: from there on
  \<^verbatim>\<open>ctx\<close> is the context derived with \<^verbatim>\<open>context.WithTimeout(ctx, t.timeout)\<close>, in both
  branches. No time passes between the two \<^verbatim>\<open>WithTimeout\<close> calls of the first branch.
\<close>

definition tryGetToken ::
  "'m mic_behaviour \<Rightarrow> 'm retryableManagedIdentityCredential \<Rightarrow> Context \<Rightarrow> TokenRequestOptions
     \<Rightarrow> world \<Rightarrow> (AccessToken \<times> error option) \<times> 'm retryableManagedIdentityCredential \<times> world" where
  "tryGetToken B t ctx0 opts w =
     (let ctx = context_WithTimeout (clock w) ctx0 (timeout t) in
      if timeout t > 0 then
        (let c = context_WithTimeout (clock w) ctx (timeout t) in
         case mic_GetToken B (mic t) c opts w of
           ((tk, err), w') \<Rightarrow>
             (case err of
                Some e \<Rightarrow>
                  if errors_As_AuthenticationFailedError e
                     \<and> strings_Contains (Error e) ''context deadline exceeded''
                  then ((tk, Some (NewCredentialUnavailableError ''managed identity request timed out'')), t, w')
                  else ((tk, Some e), t, w')
              | None \<Rightarrow> ((tk, None), t\<lparr>timeout := 0\<rparr>, w')))
      else
        (case mic_GetToken B (mic t) ctx opts w of
           ((tk, err), w') \<Rightarrow> ((tk, err), t, w')))"

text \<open>
  The loop of \<^verbatim>\<open>GetToken\<close>: \<^verbatim>\<open>for i := 0; i < t.attempts; i++\<close>, with the slice \<^verbatim>\<open>errs\<close>,
  and the statements after the loop.
\<close>

function GetToken_loop ::
  "'m mic_behaviour \<Rightarrow> 'm retryableManagedIdentityCredential \<Rightarrow> Context \<Rightarrow> TokenRequestOptions
     \<Rightarrow> int \<Rightarrow> error list \<Rightarrow> world
     \<Rightarrow> (AccessToken \<times> error option) \<times> 'm retryableManagedIdentityCredential \<times> world" where
  "GetToken_loop B t ctx opts i errs w =
     (if i < attempts t then
        (case tryGetToken B t ctx opts w of
           ((tk, err), t', w') \<Rightarrow>
             (case err of
                None \<Rightarrow> ((tk, None), t', w')
              | Some e \<Rightarrow> GetToken_loop B t' ctx opts (i + 1) (errs @ [e]) w'))
      else ((AccessToken_zero, errors_Join errs), t, w))"
  by pat_completeness auto
termination
  by (relation "measure (\<lambda>(B, t, ctx, opts, i, errs, w). nat (attempts t - i))")
     (auto simp: tryGetToken_def Let_def split: prod.splits if_splits option.splits)

declare GetToken_loop.simps [simp del]

definition GetToken ::
  "'m mic_behaviour \<Rightarrow> 'm retryableManagedIdentityCredential \<Rightarrow> Context \<Rightarrow> TokenRequestOptions
     \<Rightarrow> world \<Rightarrow> (AccessToken \<times> error option) \<times> 'm retryableManagedIdentityCredential \<times> world" where
  "GetToken B t ctx opts w =
     (let t1 = (if attempts t < 1 then t\<lparr>attempts := 1\<rparr> else t)
      in GetToken_loop B t1 ctx opts 0 [] w)"


subsection \<open>Token resolvers and the credential chain\<close>

text \<open>
  An \<^verbatim>\<open>azcore.TokenCredential\<close> in this package is either a credential made by
  azidentity (opaque, of type \<open>'x\<close>) or the retrying wrapper around a managed-identity
  credential of type \<open>'m\<close>. The \<^verbatim>\<open>nil\<close> interface value is \<open>None\<close>.
\<close>

datatype ('x, 'm) TokenCredential =
    AzidentityCredential 'x
  | RetryableManagedIdentityCredential "'m retryableManagedIdentityCredential"

text \<open>
  \<^verbatim>\<open>TokenResolverFn\<close> is \<^verbatim>\<open>func() (azcore.TokenCredential, error)\<close>. A resolver is
  arbitrary code: it may read and change the world \<open>'w\<close> around it, and it returns a pair
  of which either component may be \<^verbatim>\<open>nil\<close>.
\<close>

type_synonym ('c, 'w) TokenResolverFn = "'w \<Rightarrow> ('c option \<times> error option) \<times> 'w"

text \<open>
  The functions of azidentity that the package calls. A constructor of azidentity returns
  either an error or a credential (\<open>Inl\<close> the error); those that may look at the
  environment take and return the world. \<^verbatim>\<open>NewChainedTokenCredential\<close> and
  \<^verbatim>\<open>ParseCertificates\<close> only inspect their arguments. Option structs carry the fields
  that \<^verbatim>\<open>token.go\<close> sets; \<open>'co\<close> is \<^verbatim>\<open>azcore.ClientOptions\<close>.
\<close>

record AzureCLICredentialOptions =
  cli_AdditionallyAllowedTenants :: "string list"

record 'co EnvironmentCredentialOptions =
  env_ClientOptions :: 'co

record 'co ManagedIdentityCredentialOptions =
  mi_ClientOptions :: 'co

record 'co WorkloadIdentityCredentialOptions =
  wi_ClientOptions :: 'co
  wi_DisableInstanceDiscovery :: bool
  wi_TenantID :: string

record 'co DefaultAzureCredentialOptions =
  dac_ClientOptions :: 'co
  dac_DisableInstanceDiscovery :: bool
  dac_TenantID :: string

record ('x, 'm, 'co, 'certs, 'key, 'w) azidentity =
  NewAzureCLICredential :: "AzureCLICredentialOptions \<Rightarrow> 'w \<Rightarrow> (error + 'x) \<times> 'w"
  NewEnvironmentCredential :: "'co EnvironmentCredentialOptions \<Rightarrow> 'w \<Rightarrow> (error + 'x) \<times> 'w"
  NewManagedIdentityCredential :: "'co ManagedIdentityCredentialOptions \<Rightarrow> 'w \<Rightarrow> (error + 'm) \<times> 'w"
  NewWorkloadIdentityCredential :: "'co WorkloadIdentityCredentialOptions \<Rightarrow> 'w \<Rightarrow> (error + 'x) \<times> 'w"
  NewChainedTokenCredential :: "('x, 'm) TokenCredential option list \<Rightarrow> error + 'x"
  ParseCertificates :: "string \<Rightarrow> string \<Rightarrow> error + 'certs \<times> 'key"
  NewClientCertificateCredential :: "string \<Rightarrow> string \<Rightarrow> 'certs \<Rightarrow> 'key \<Rightarrow> 'w \<Rightarrow> (error + 'x) \<times> 'w"
  NewClientSecretCredential :: "string \<Rightarrow> string \<Rightarrow> string \<Rightarrow> 'w \<Rightarrow> (error + 'x) \<times> 'w"
  ClientOptions_zero :: 'co

text \<open>The resolver constructors, lines 33 to 107.\<close>

definition WithStaticToken :: "'c option \<Rightarrow> ('c, 'w) TokenResolverFn" where
  "WithStaticToken t = (\<lambda>w. ((t, None), w))"

definition from_azidentity ::
  "(error + 'x) \<times> 'w \<Rightarrow> (('x, 'm) TokenCredential option \<times> error option) \<times> 'w" where
  "from_azidentity r =
     (case r of
        (Inl err, w') \<Rightarrow> ((None, Some err), w')
      | (Inr cred, w') \<Rightarrow> ((Some (AzidentityCredential cred), None), w'))"

definition WithCliCredentials ::
  "('x, 'm, 'co, 'certs, 'key, 'w) azidentity \<Rightarrow> AzureCLICredentialOptions
     \<Rightarrow> (('x, 'm) TokenCredential, 'w) TokenResolverFn" where
  "WithCliCredentials az opts = (\<lambda>w. from_azidentity (NewAzureCLICredential az opts w))"

definition WithEnvCredentials ::
  "('x, 'm, 'co, 'certs, 'key, 'w) azidentity \<Rightarrow> 'co EnvironmentCredentialOptions
     \<Rightarrow> (('x, 'm) TokenCredential, 'w) TokenResolverFn" where
  "WithEnvCredentials az opts = (\<lambda>w. from_azidentity (NewEnvironmentCredential az opts w))"

definition WithRetryableManagedIdentityCredentials ::
  "('x, 'm, 'co, 'certs, 'key, 'w) azidentity \<Rightarrow> int \<Rightarrow> int \<Rightarrow> 'co ManagedIdentityCredentialOptions
     \<Rightarrow> (('x, 'm) TokenCredential, 'w) TokenResolverFn" where
  "WithRetryableManagedIdentityCredentials az timeout' attempts' opts =
     (\<lambda>w. case NewManagedIdentityCredential az opts w of
             (Inl err, w') \<Rightarrow> ((None, Some err), w')
           | (Inr m, w') \<Rightarrow>
               ((Some (RetryableManagedIdentityCredential
                         \<lparr>mic = m, attempts = attempts', timeout = timeout'\<rparr>), None), w'))"

definition WithWorkloadIdentityCredentials ::
  "('x, 'm, 'co, 'certs, 'key, 'w) azidentity \<Rightarrow> 'co WorkloadIdentityCredentialOptions
     \<Rightarrow> (('x, 'm) TokenCredential, 'w) TokenResolverFn" where
  "WithWorkloadIdentityCredentials az opts =
     (\<lambda>w. from_azidentity (NewWorkloadIdentityCredential az opts w))"

text \<open>
  \<^verbatim>\<open>BuildChainedToken\<close>: the loop over \<^verbatim>\<open>opts\<close> with the slice \<^verbatim>\<open>chain\<close>, then the call
  of the chain constructor, which is the first argument of the model.
\<close>

fun BuildChainedToken_loop ::
  "('c, 'w) TokenResolverFn list \<Rightarrow> 'c option list \<Rightarrow> 'w \<Rightarrow> 'c option list \<times> 'w" where
  "BuildChainedToken_loop [] chain w = (chain, w)"
| "BuildChainedToken_loop (fn # opts) chain w =
     (case fn w of
        ((cred, err), w') \<Rightarrow>
          if err = None then BuildChainedToken_loop opts (chain @ [cred]) w'
          else BuildChainedToken_loop opts chain w')"

definition BuildChainedToken ::
  "('c option list \<Rightarrow> error + 'x) \<Rightarrow> ('c, 'w) TokenResolverFn list \<Rightarrow> 'w \<Rightarrow> (error + 'x) \<times> 'w" where
  "BuildChainedToken newChainedTokenCredential opts w =
     (case BuildChainedToken_loop opts [] w of
        (chain, w') \<Rightarrow> (newChainedTokenCredential chain, w'))"

definition DefaultRetryableManagedIdentityTimeout :: int where
  "DefaultRetryableManagedIdentityTimeout = 5 * 1000000000"

definition DefaultRetryableManagedIdentityAttempts :: int where
  "DefaultRetryableManagedIdentityAttempts = 3"

definition DefaultAzureCredentialOptions_zero ::
  "('x, 'm, 'co, 'certs, 'key, 'w) azidentity \<Rightarrow> 'co DefaultAzureCredentialOptions" where
  "DefaultAzureCredentialOptions_zero az =
     \<lparr>dac_ClientOptions = ClientOptions_zero az, dac_DisableInstanceDiscovery = False,
      dac_TenantID = []\<rparr>"

definition GetDefaultChainedToken ::
  "('x, 'm, 'co, 'certs, 'key, 'w) azidentity \<Rightarrow> 'co DefaultAzureCredentialOptions option
     \<Rightarrow> 'w \<Rightarrow> (error + 'x) \<times> 'w" where
  "GetDefaultChainedToken az options0 w =
     (let options = (case options0 of None \<Rightarrow> DefaultAzureCredentialOptions_zero az
                     | Some v \<Rightarrow> v);
          opts =
            [WithCliCredentials az \<lparr>cli_AdditionallyAllowedTenants = [''*'']\<rparr>,
             WithEnvCredentials az \<lparr>env_ClientOptions = dac_ClientOptions options\<rparr>,
             WithRetryableManagedIdentityCredentials az DefaultRetryableManagedIdentityTimeout
               DefaultRetryableManagedIdentityAttempts
               \<lparr>mi_ClientOptions = dac_ClientOptions options\<rparr>,
             WithWorkloadIdentityCredentials az
               \<lparr>wi_ClientOptions = dac_ClientOptions options,
                wi_DisableInstanceDiscovery = dac_DisableInstanceDiscovery options,
                wi_TenantID = dac_TenantID options\<rparr>]
      in BuildChainedToken (NewChainedTokenCredential az) opts w)"

subsection \<open>From a stored credential to a token credential\<close>

text \<open>
  Modelled from the spec: the types \<^verbatim>\<open>vault.Credential\<close> and \<^verbatim>\<open>vault.CredentialType\<close> of
  package \<^verbatim>\<open>vault\<close>, which is not among the sources. The descriptor has a kind, the secret
  bytes, a password and a private-key path hint; the kinds are certificate
  (\<^verbatim>\<open>CredentialType_pkcs12\<close>), password (\<^verbatim>\<open>CredentialType_password\<close>) and any other value,
  which carries the name that its \<^verbatim>\<open>String()\<close> method prints. Byte slices are strings.
\<close>

datatype CredentialType =
    CredentialType_pkcs12
  | CredentialType_password
  | CredentialType_other string

fun CredentialType_String :: "CredentialType \<Rightarrow> string" where
  "CredentialType_String CredentialType_pkcs12 = ''pkcs12''"
| "CredentialType_String CredentialType_password = ''password''"
| "CredentialType_String (CredentialType_other name) = name"

record Credential =
  Type :: CredentialType
  Secret :: string
  Password :: string
  PrivateKeyPath :: string

text \<open>
  \<^verbatim>\<open>GetTokenFromCredential\<close>; \<open>None\<close> is the \<^verbatim>\<open>nil\<close> descriptor. Every path returns
  either \<^verbatim>\<open>(nil, err)\<close> or \<^verbatim>\<open>(azCred, nil)\<close>, so the result is a sum.
\<close>

definition GetTokenFromCredential ::
  "('x, 'm, 'co, 'certs, 'key, 'w) azidentity \<Rightarrow> Credential option \<Rightarrow> string \<Rightarrow> string
     \<Rightarrow> 'w \<Rightarrow> (error + 'x) \<times> 'w" where
  "GetTokenFromCredential az credential tenantID clientID w =
     (case credential of
        None \<Rightarrow>
          (case GetDefaultChainedToken az (Some (DefaultAzureCredentialOptions_zero az)) w of
             (Inl err, w') \<Rightarrow> (Inl (errors_Wrap err ''error creating CLI credentials''), w')
           | (Inr azCred, w') \<Rightarrow> (Inr azCred, w'))
      | Some c \<Rightarrow>
          (case Type c of
             CredentialType_pkcs12 \<Rightarrow>
               (case ParseCertificates az (Secret c) (Password c) of
                  Inl err \<Rightarrow>
                    (Inl (errors_Wrap err
                            (''could not parse provided certificate at '' @ PrivateKeyPath c)), w)
                | Inr (certs, privateKey) \<Rightarrow>
                    (case NewClientCertificateCredential az tenantID clientID certs privateKey w of
                       (Inl err, w') \<Rightarrow>
                         (Inl (errors_Wrap err ''error creating credentials from a certificate''), w')
                     | (Inr azCred, w') \<Rightarrow> (Inr azCred, w')))
           | CredentialType_password \<Rightarrow>
               (case NewClientSecretCredential az tenantID clientID (Secret c) w of
                  (Inl err, w') \<Rightarrow>
                    (Inl (errors_Wrap err ''error creating credentials from a secret''), w')
                | (Inr azCred, w') \<Rightarrow> (Inr azCred, w'))
           | CredentialType_other name \<Rightarrow>
               (Inl (ErrorString (''invalid secret configuration for microsoft transport: ''
                                  @ CredentialType_String (Type c))), w)))"


subsection \<open>Notions used to state the properties\<close>

text \<open>
  What lines 290 to 295 of \<^verbatim>\<open>tryGetToken\<close> make of the error \<open>e\<close> returned by the
  underlying credential when the timeout of the wrapper is \<open>tmo\<close>; the \<^verbatim>\<open>else\<close> branch
  (line 303) returns the error as it is.
\<close>

definition recorded_error :: "int \<Rightarrow> error \<Rightarrow> error" where
  "recorded_error tmo e =
     (if tmo > 0 \<and> errors_As_AuthenticationFailedError e
         \<and> strings_Contains (Error e) ''context deadline exceeded''
      then CredentialUnavailableError ''managed identity request timed out''
      else e)"

text \<open>
  Calling every resolver of a list once, from first to last, each in the world its
  predecessor left: the results in order and the final world.
\<close>

fun run_resolvers ::
  "('c, 'w) TokenResolverFn list \<Rightarrow> 'w \<Rightarrow> ('c option \<times> error option) list \<times> 'w" where
  "run_resolvers [] w = ([], w)"
| "run_resolvers (fn # fns) w =
     (case fn w of
        (r, w') \<Rightarrow> (case run_resolvers fns w' of (rs, w'') \<Rightarrow> (r # rs, w'')))"

text \<open>
  A resolver made to record its call: it does what \<open>fn\<close> does and appends the number \<open>i\<close>
  to a trace kept next to the world.
\<close>

definition traced :: "nat \<Rightarrow> ('c, 'w) TokenResolverFn \<Rightarrow> ('c, 'w \<times> nat list) TokenResolverFn" where
  "traced i fn = (\<lambda>(w, tr). case fn w of (r, w') \<Rightarrow> (r, (w', tr @ [i])))"

text \<open>
  Examples: underlying credentials that always fail, always succeed, or fail on the first
  \<open>n\<close> calls the world has seen; a wrapper, a world whose clock reads 100, request
  options and a token.
\<close>

definition always_fails :: "error \<Rightarrow> unit mic_behaviour" where
  "always_fails e m w c p = ((AccessToken_zero, Some e), 1)"

definition always_succeeds :: "AccessToken \<Rightarrow> unit mic_behaviour" where
  "always_succeeds tok m w c p = ((tok, None), 7)"

definition fails_first :: "nat \<Rightarrow> error \<Rightarrow> AccessToken \<Rightarrow> unit mic_behaviour" where
  "fails_first n e tok m w c p =
     (if length (invocations w) < n then ((AccessToken_zero, Some e), 1) else ((tok, None), 1))"

definition example_credential :: "int \<Rightarrow> int \<Rightarrow> unit retryableManagedIdentityCredential" where
  "example_credential tmo n = \<lparr>mic = (), attempts = n, timeout = tmo\<rparr>"

definition example_world :: world where
  "example_world = \<lparr>clock = 100, invocations = []\<rparr>"

definition example_opts :: TokenRequestOptions where
  "example_opts = \<lparr>Scopes = [''https://management.azure.com/.default'']\<rparr>"

definition example_token :: AccessToken where
  "example_token = \<lparr>Token = ''T'', ExpiresOn = 3600\<rparr>"

definition timeout_error :: error where
  "timeout_error = AuthenticationFailedError ''GET token: context deadline exceeded''"

definition rejection_error :: error where
  "rejection_error = AuthenticationFailedError ''invalid client secret''"


text \<open>
  Examples for the chain: resolvers that append their number to the world and fail or
  succeed; a chain constructor with the checks of
  \<^verbatim>\<open>azidentity.NewChainedTokenCredential\<close> (no empty list, no \<^verbatim>\<open>nil\<close> source); a stub of
  azidentity whose constructors append their name to the world, and a certificate descriptor
  whose bytes do not parse.
\<close>

definition failing_resolver :: "nat \<Rightarrow> error \<Rightarrow> (string, nat list) TokenResolverFn" where
  "failing_resolver i e = (\<lambda>w. ((None, Some e), w @ [i]))"

definition working_resolver :: "nat \<Rightarrow> string \<Rightarrow> (string, nat list) TokenResolverFn" where
  "working_resolver i c = (\<lambda>w. ((Some c, None), w @ [i]))"

definition example_NewChainedTokenCredential :: "string option list \<Rightarrow> error + string list" where
  "example_NewChainedTokenCredential sources =
     (if sources = [] then Inl (ErrorString ''sources must contain at least one TokenCredential'')
      else if None \<in> set sources then Inl (ErrorString ''sources cannot contain nil'')
      else Inr (map the sources))"

definition example_azidentity :: "(string, unit, unit, string, string, string list) azidentity" where
  "example_azidentity =
     \<lparr>NewAzureCLICredential = (\<lambda>opts w. (Inr ''cli'', w @ [''NewAzureCLICredential''])),
      NewEnvironmentCredential = (\<lambda>opts w. (Inr ''env'', w @ [''NewEnvironmentCredential''])),
      NewManagedIdentityCredential = (\<lambda>opts w. (Inr (), w @ [''NewManagedIdentityCredential''])),
      NewWorkloadIdentityCredential =
        (\<lambda>opts w. (Inr ''workload'', w @ [''NewWorkloadIdentityCredential''])),
      NewChainedTokenCredential = (\<lambda>sources. Inr ''chain''),
      ParseCertificates =
        (\<lambda>secret password.
           if secret = ''valid'' then Inr (''certs'', ''key'')
           else Inl (ErrorString ''pkcs12: error reading P12 data'')),
      NewClientCertificateCredential =
        (\<lambda>tenantID clientID certs key w. (Inr ''certificate'', w @ [''NewClientCertificateCredential''])),
      NewClientSecretCredential =
        (\<lambda>tenantID clientID secret w. (Inr ''secret'', w @ [''NewClientSecretCredential''])),
      ClientOptions_zero = ()\<rparr>"

definition corrupted_certificate :: Credential where
  "corrupted_certificate =
     \<lparr>Type = CredentialType_pkcs12, Secret = ''corrupted'', Password = ''pw'',
      PrivateKeyPath = ''/etc/sp.pfx''\<rparr>"

section \<open>Properties\<close>

subsection \<open>Auxiliary facts\<close>

lemmas example_defs =
  GetToken_def tryGetToken_def mic_GetToken_def always_fails_def always_succeeds_def
  fails_first_def example_credential_def example_world_def example_opts_def example_token_def
  context_Background_def context_WithTimeout_def context_WithDeadline_def Let_def
  timeout_error_def rejection_error_def errors_Join_def NewCredentialUnavailableError_def
  AccessToken_zero_def recorded_error_def

lemma WithTimeout_idem:
  "context_WithTimeout now (context_WithTimeout now ctx d) d = context_WithTimeout now ctx d"
  by (simp add: context_WithTimeout_def context_WithDeadline_def split: option.splits)

lemma tryGetToken_unfold:
  assumes "B (mic t) w (context_WithTimeout (clock w) ctx (timeout t)) opts = ((tk, err), el)"
  shows "tryGetToken B t ctx opts w =
     ((tk, map_option (recorded_error (timeout t)) err),
      (if timeout t > 0 \<and> err = None then t\<lparr>timeout := 0\<rparr> else t),
      w\<lparr>clock := clock w + int el,
        invocations := invocations w @
          [\<lparr>inv_ctx = context_WithTimeout (clock w) ctx (timeout t), inv_opts = opts,
            inv_result = (tk, err)\<rparr>]\<rparr>)"
  using assms
  by (auto simp: tryGetToken_def Let_def mic_GetToken_def WithTimeout_idem recorded_error_def
        NewCredentialUnavailableError_def split: option.splits)

lemma tryGetToken_frame:
  "tryGetToken B t ctx opts w = (r, t', w') \<Longrightarrow>
     mic t' = mic t \<and> attempts t' = attempts t \<and> (timeout t' = timeout t \<or> timeout t' = 0)
     \<and> length (invocations w') = Suc (length (invocations w))"
  by (cases "B (mic t) w (context_WithTimeout (clock w) ctx (timeout t)) opts" rule: prod.exhaust[case_product prod.exhaust])
     (auto simp: tryGetToken_unfold split: if_splits)


lemma GetToken_loop_frame:
  "GetToken_loop B t ctx opts i errs w = (r, t', w') \<Longrightarrow>
     mic t' = mic t \<and> attempts t' = attempts t \<and> (timeout t' = timeout t \<or> timeout t' = 0)
     \<and> length (invocations w) \<le> length (invocations w')"
proof (induction B t ctx opts i errs w arbitrary: r t' w' rule: GetToken_loop.induct)
  case (1 B t ctx opts i errs w)
  show ?case
  proof (cases "i < attempts t")
    case False
    with "1.prems" show ?thesis by (simp add: GetToken_loop.simps [of B t])
  next
    case True
    obtain tk err t1 w1 where step: "tryGetToken B t ctx opts w = ((tk, err), t1, w1)"
      by (metis prod.exhaust)
    note fr = tryGetToken_frame [OF step]
    show ?thesis
    proof (cases err)
      case None
      with True step "1.prems" fr show ?thesis by (auto simp: GetToken_loop.simps [of B t])
    next
      case (Some e)
      with True step "1.prems"
      have "GetToken_loop B t1 ctx opts (i + 1) (errs @ [e]) w1 = (r, t', w')"
        by (simp add: GetToken_loop.simps [of B t])
      from "1.IH" [OF True step [symmetric] refl refl Some this] fr
      show ?thesis by auto
    qed
  qed
qed

lemma GetToken_loop_fail_prefix:
  assumes "\<forall>w' c p. length (invocations w') < length (invocations w) + k
             \<longrightarrow> snd (fst (B (mic t) w' c p)) \<noteq> None"
    and "i + int k \<le> attempts t"
  shows "\<exists>news w'. GetToken_loop B t ctx opts i errs w =
            GetToken_loop B t ctx opts (i + int k)
              (errs @ map (\<lambda>v. recorded_error (timeout t) (the (snd (inv_result v)))) news) w'
          \<and> invocations w' = invocations w @ news \<and> length news = k"
  using assms
proof (induction k arbitrary: i errs w)
  case 0
  show ?case by (rule exI [of _ "[]"], rule exI [of _ w]) simp
next
  case (Suc k)
  let ?c = "context_WithTimeout (clock w) ctx (timeout t)"
  obtain tk err el where b: "B (mic t) w ?c opts = ((tk, err), el)"
    by (metis prod.exhaust)
  from Suc.prems(1) have "snd (fst (B (mic t) w ?c opts)) \<noteq> None" by simp
  with b obtain e where e: "err = Some e" by auto
  let ?v = "\<lparr>inv_ctx = ?c, inv_opts = opts, inv_result = (tk, err)\<rparr>"
  let ?w1 = "w\<lparr>clock := clock w + int el, invocations := invocations w @ [?v]\<rparr>"
  have step: "tryGetToken B t ctx opts w = ((tk, Some (recorded_error (timeout t) e)), t, ?w1)"
    using tryGetToken_unfold [where B=B and t=t and w=w and ctx=ctx and opts=opts, OF b] e by simp
  from Suc.prems(2) have lt: "i < attempts t" by simp
  have unf: "GetToken_loop B t ctx opts i errs w =
      GetToken_loop B t ctx opts (i + 1) (errs @ [recorded_error (timeout t) e]) ?w1"
    using lt step by (simp add: GetToken_loop.simps [of B t ctx opts i])
  have f1: "\<forall>w' c p. length (invocations w') < length (invocations ?w1) + k
             \<longrightarrow> snd (fst (B (mic t) w' c p)) \<noteq> None"
    using Suc.prems(1) by simp
  have b1: "(i + 1) + int k \<le> attempts t" using Suc.prems(2) by simp
  from Suc.IH [OF f1 b1, of "errs @ [recorded_error (timeout t) e]"]
  obtain news w' where ih:
    "GetToken_loop B t ctx opts (i + 1) (errs @ [recorded_error (timeout t) e]) ?w1 =
       GetToken_loop B t ctx opts (i + 1 + int k)
         ((errs @ [recorded_error (timeout t) e]) @
            map (\<lambda>v. recorded_error (timeout t) (the (snd (inv_result v)))) news) w'"
    "invocations w' = invocations ?w1 @ news" "length news = k"
    by blast
  show ?case
  proof (rule exI [of _ "?v # news"], rule exI [of _ w'], intro conjI)
    show "GetToken_loop B t ctx opts i errs w =
        GetToken_loop B t ctx opts (i + int (Suc k))
          (errs @ map (\<lambda>v. recorded_error (timeout t) (the (snd (inv_result v)))) (?v # news)) w'"
    proof -
      have "i + int (Suc k) = i + 1 + int k" by simp
      then show ?thesis using unf ih(1) e by (simp add: add.assoc)
    qed
    show "invocations w' = invocations w @ ?v # news" using ih(2) by simp
    show "length (?v # news) = Suc k" using ih(3) by simp
  qed
qed


lemma GetToken_loop_step:
  "i < attempts t \<Longrightarrow> tryGetToken B t ctx opts w = ((tk, err), t', w') \<Longrightarrow>
     GetToken_loop B t ctx opts i errs w =
       (case err of None \<Rightarrow> ((tk, None), t', w')
        | Some e \<Rightarrow> GetToken_loop B t' ctx opts (i + 1) (errs @ [e]) w')"
  by (subst GetToken_loop.simps) simp

lemma GetToken_loop_exit:
  "\<not> i < attempts t \<Longrightarrow>
     GetToken_loop B t ctx opts i errs w = ((AccessToken_zero, errors_Join errs), t, w)"
  by (simp add: GetToken_loop.simps [of B t])

lemma length_run_resolvers: "length (fst (run_resolvers opts w)) = length opts"
proof (induction opts arbitrary: w)
  case Nil
  show ?case by simp
next
  case (Cons fn opts)
  obtain r w' where fn: "fn w = (r, w')" by (metis prod.exhaust)
  obtain rs w'' where rest: "run_resolvers opts w' = (rs, w'')" by (metis prod.exhaust)
  from Cons.IH [of w'] rest have "length rs = length opts" by simp
  with fn rest show ?case by simp
qed

lemma BuildChainedToken_loop_run:
  "BuildChainedToken_loop opts chain w =
     (chain @ map fst (filter (\<lambda>r. snd r = None) (fst (run_resolvers opts w))),
      snd (run_resolvers opts w))"
proof (induction opts arbitrary: chain w)
  case Nil
  show ?case by simp
next
  case (Cons fn opts)
  obtain cred err w' where fn: "fn w = ((cred, err), w')" by (metis prod.exhaust)
  obtain rs w'' where rest: "run_resolvers opts w' = (rs, w'')" by (metis prod.exhaust)
  show ?case
    using fn rest Cons.IH [of "chain @ [cred]" w'] Cons.IH [of chain w'] by simp
qed

lemma BuildChainedToken_loop_traced:
  "BuildChainedToken_loop (map (\<lambda>(i, fn). traced i fn) (enumerate k opts)) chain (w, tr) =
     (fst (BuildChainedToken_loop opts chain w),
      snd (BuildChainedToken_loop opts chain w), tr @ [k..<k + length opts])"
proof (induction opts arbitrary: k chain w tr)
  case Nil
  show ?case by simp
next
  case (Cons fn opts)
  obtain cred err w' where fn: "fn w = ((cred, err), w')" by (metis prod.exhaust)
  have up: "[k..<k + length (fn # opts)] = k # [Suc k..<Suc k + length opts]"
    by (subst upt_rec) simp
  show ?case
    unfolding up using fn Cons.IH [of "Suc k"] by (simp add: traced_def)
qed

lemma run_resolvers_all_fail:
  "\<forall>fn\<in>set opts. \<forall>w. snd (fst (fn w)) \<noteq> None \<Longrightarrow>
     filter (\<lambda>r. snd r = None) (fst (run_resolvers opts w)) = []"
proof (induction opts arbitrary: w)
  case Nil
  show ?case by simp
next
  case (Cons fn opts)
  obtain r w' where fn: "fn w = (r, w')" by (metis prod.exhaust)
  obtain rs w'' where rest: "run_resolvers opts w' = (rs, w'')" by (metis prod.exhaust)
  from Cons.prems have "snd (fst (fn w)) \<noteq> None" by simp
  with fn have r: "snd r \<noteq> None" by simp
  from Cons.prems have "\<forall>fn\<in>set opts. \<forall>w. snd (fst (fn w)) \<noteq> None" by simp
  from Cons.IH [OF this, of w'] rest have "filter (\<lambda>r. snd r = None) rs = []" by simp
  with fn rest r show ?case by simp
qed

lemma strings_HasPrefix_append: "strings_HasPrefix (b @ c) b"
  by (induction b) auto

lemma strings_Contains_HasPrefix: "strings_HasPrefix s sub \<Longrightarrow> strings_Contains s sub"
  by (cases s; cases sub) auto

lemma strings_Contains_append: "strings_Contains (a @ b @ c) b"
  by (induction a) (auto simp: strings_Contains_HasPrefix strings_HasPrefix_append)

subsection \<open>The retrying credential\<close>

text \<open>
  C1. The specification states: with a timeout of 0 or less (also after a success has set
  it to 0) the underlying credential is called under a context whose deadline is exactly
  the caller's. The code does not do that. Line 283 derives a context with \<^verbatim>\<open>WithTimeout(ctx, t.timeout)\<close>
  before the test of \<^verbatim>\<open>t.timeout\<close> and rebinds \<^verbatim>\<open>ctx\<close> to it, so the branch commented
  "use the original context" passes the derived one. Evaluated at the failing input: the
  caller passes \<^verbatim>\<open>context.Background()\<close>, which has no deadline, at clock reading 100. A
  wrapper with timeout 0 calls the underlying credential with deadline 100, the present
  moment. A wrapper with timeout 5s succeeds on its first call, which relaxes the timeout
  to 0 and ends at clock reading 107; the second \<^verbatim>\<open>GetToken\<close> then calls the underlying
  credential with deadline 107, again the present moment.
\<close>

theorem GetToken_zero_timeout_deadline_at_failing_input:
  "Deadline context_Background = None
   \<and> map (Deadline \<circ> inv_ctx)
       (invocations (snd (snd (GetToken (always_succeeds example_token) (example_credential 0 1)
          context_Background example_opts example_world)))) = [Some 100]
   \<and> (case GetToken (always_succeeds example_token) (example_credential 5000000000 3)
             context_Background example_opts example_world of
        (r, t', w') \<Rightarrow>
          timeout t' = 0 \<and> clock w' = 107
          \<and> map (Deadline \<circ> inv_ctx)
              (invocations (snd (snd (GetToken (always_succeeds example_token) t'
                 context_Background example_opts w')))) = [Some 5000000100, Some 107])"
  by (simp add: example_defs GetToken_loop.simps)

text \<open>
  C2. For \<open>attempts = N \<ge> 1\<close> and an underlying credential that fails on every call,
  \<^verbatim>\<open>GetToken\<close> calls it exactly \<open>N\<close> times (the world holds \<open>N\<close> more invocations, after the
  old ones) and returns the zero token with one joined error: the errors recorded for the
  \<open>N\<close> new invocations, in the order of the calls.
\<close>

theorem GetToken_all_attempts_fail:
  assumes N: "1 \<le> attempts t"
    and fails: "\<forall>w' c p. snd (fst (B (mic t) w' c p)) \<noteq> None"
    and run: "GetToken B t ctx opts w = (r, t', w')"
  shows "length (invocations w') = length (invocations w) + nat (attempts t)
       \<and> take (length (invocations w)) (invocations w') = invocations w
       \<and> r = (AccessToken_zero,
              Some (JoinError (map (\<lambda>v. recorded_error (timeout t) (the (snd (inv_result v))))
                                 (drop (length (invocations w)) (invocations w')))))"
proof -
  let ?k = "nat (attempts t)"
  have f: "\<forall>w' c p. length (invocations w') < length (invocations w) + ?k
             \<longrightarrow> snd (fst (B (mic t) w' c p)) \<noteq> None"
    using fails by simp
  have b: "0 + int ?k \<le> attempts t" using N by simp
  from GetToken_loop_fail_prefix [where B=B and t=t and w=w and k="?k" and i=0 and ctx=ctx
      and opts=opts and errs="[]", OF f b]
  obtain news w1 where pre:
    "GetToken_loop B t ctx opts 0 [] w =
       GetToken_loop B t ctx opts (int ?k)
         (map (\<lambda>v. recorded_error (timeout t) (the (snd (inv_result v)))) news) w1"
    "invocations w1 = invocations w @ news" "length news = ?k"
    by auto
  have ne: "news \<noteq> []" using pre(3) N by auto
  have "GetToken B t ctx opts w = GetToken_loop B t ctx opts 0 [] w"
    using N by (simp add: GetToken_def)
  also have "\<dots> = ((AccessToken_zero,
        Some (JoinError (map (\<lambda>v. recorded_error (timeout t) (the (snd (inv_result v)))) news))),
        t, w1)"
    using pre(1) ne N by (simp add: GetToken_loop_exit errors_Join_def)
  finally show ?thesis using run pre(2,3) by auto
qed

text \<open>Three attempts that all time out: three calls, three credential-unavailable errors.\<close>

theorem GetToken_all_attempts_fail_witness:
  "fst (GetToken (always_fails timeout_error) (example_credential 5000000000 3)
          context_Background example_opts example_world) =
     (AccessToken_zero,
      Some (JoinError [CredentialUnavailableError ''managed identity request timed out'',
                       CredentialUnavailableError ''managed identity request timed out'',
                       CredentialUnavailableError ''managed identity request timed out'']))
   \<and> length (invocations (snd (snd (GetToken (always_fails timeout_error)
        (example_credential 5000000000 3) context_Background example_opts example_world)))) = 3"
proof -
  let ?t = "example_credential 5000000000 3"
  let ?B = "always_fails timeout_error"
  let ?X = "GetToken ?B ?t context_Background example_opts example_world"
  have N: "1 \<le> attempts ?t" by (simp add: example_credential_def)
  have fails: "\<forall>w' c p. snd (fst (?B (mic ?t) w' c p)) \<noteq> None"
    by (simp add: always_fails_def)
  have run: "?X = (fst ?X, fst (snd ?X), snd (snd ?X))" by simp
  from GetToken_all_attempts_fail [where B="?B" and t="?t", OF N fails run] show ?thesis
    by (simp add: example_defs GetToken_loop.simps)
qed



text \<open>
  C5, as amended. \<^verbatim>\<open>GetToken\<close> never changes the underlying credential; it leaves
  \<^verbatim>\<open>attempts\<close> as it is when that is at least 1 and sets it to 1 otherwise (lines 244 to
  246); and \<^verbatim>\<open>timeout\<close> is either unchanged or set to 0.
\<close>

theorem GetToken_frame:
  "mic (fst (snd (GetToken B t ctx opts w))) = mic t
   \<and> attempts (fst (snd (GetToken B t ctx opts w))) = max 1 (attempts t)
   \<and> (timeout (fst (snd (GetToken B t ctx opts w))) = timeout t
        \<or> timeout (fst (snd (GetToken B t ctx opts w))) = 0)"
proof -
  let ?t1 = "if attempts t < 1 then t\<lparr>attempts := 1\<rparr> else t"
  obtain r t' w' where run: "GetToken_loop B ?t1 ctx opts 0 [] w = (r, t', w')"
    by (metis prod.exhaust)
  from GetToken_loop_frame [OF run] run show ?thesis
    by (auto simp: GetToken_def Let_def)
qed

text \<open>A wrapper with three attempts after a successful call: only the timeout differs.\<close>

theorem GetToken_frame_witness:
  "fst (snd (GetToken (always_succeeds example_token) (example_credential 5000000000 3)
      context_Background example_opts example_world)) =
     \<lparr>mic = (), attempts = 3, timeout = 0\<rparr>"
  using GetToken_frame [of "always_succeeds example_token" "example_credential 5000000000 3"
      context_Background example_opts example_world]
  by (simp add: example_defs GetToken_loop.simps)

text \<open>
  C5 as stated (only \<^verbatim>\<open>timeout\<close> is ever mutated, \<^verbatim>\<open>attempts\<close> never) fails for a wrapper
  built with \<^verbatim>\<open>attempts = 0\<close>: after \<^verbatim>\<open>GetToken\<close> the field holds 1.
\<close>

theorem GetToken_mutates_attempts_counterexample:
  "attempts (example_credential 5000000000 0) = 0
   \<and> attempts (fst (snd (GetToken (always_succeeds example_token) (example_credential 5000000000 0)
        context_Background example_opts example_world))) = 1"
  by (simp add: example_defs GetToken_loop.simps)

text \<open>
  C6. Whatever \<^verbatim>\<open>attempts\<close> was, zero and negative values included, after \<^verbatim>\<open>GetToken\<close> it is
  at least 1 and the call has invoked the underlying credential at least once.
\<close>

theorem GetToken_at_least_one_attempt:
  "1 \<le> attempts (fst (snd (GetToken B t ctx opts w)))
   \<and> Suc (length (invocations w)) \<le> length (invocations (snd (snd (GetToken B t ctx opts w))))"
proof -
  let ?t1 = "if attempts t < 1 then t\<lparr>attempts := 1\<rparr> else t"
  obtain r t' w' where run: "GetToken_loop B ?t1 ctx opts 0 [] w = (r, t', w')"
    by (metis prod.exhaust)
  obtain tk err t2 w2 where step: "tryGetToken B ?t1 ctx opts w = ((tk, err), t2, w2)"
    by (metis prod.exhaust)
  note fr = tryGetToken_frame [OF step]
  have lt: "0 < attempts ?t1" by simp
  have "length (invocations w2) \<le> length (invocations w')"
  proof (cases err)
    case None
    with run GetToken_loop_step [OF lt step, of "[]"] show ?thesis
      by simp
  next
    case (Some e)
    with run GetToken_loop_step [OF lt step, of "[]"]
    have "GetToken_loop B t2 ctx opts (0 + 1) ([] @ [e]) w2 = (r, t', w')"
      by simp
    from GetToken_loop_frame [OF this] show ?thesis by simp
  qed
  moreover have "attempts t' = attempts ?t1" using GetToken_loop_frame [OF run] by simp
  ultimately show ?thesis using fr run by (simp add: GetToken_def Let_def)
qed

text \<open>A wrapper built with \<^verbatim>\<open>attempts = -2\<close> still makes one call.\<close>

theorem GetToken_at_least_one_attempt_witness:
  "length (invocations (snd (snd (GetToken (always_fails rejection_error)
      (example_credential 5000000000 (- 2)) context_Background example_opts example_world)))) = 1
   \<and> attempts (fst (snd (GetToken (always_fails rejection_error)
      (example_credential 5000000000 (- 2)) context_Background example_opts example_world))) = 1"
  using GetToken_at_least_one_attempt [of "always_fails rejection_error"
      "example_credential 5000000000 (- 2)" context_Background example_opts example_world]
  by (simp add: example_defs GetToken_loop.simps)







subsection \<open>The credential chain\<close>

text \<open>
  C4. \<^verbatim>\<open>BuildChainedToken\<close> calls each resolver once, in order: its result and final world
  are those of \<open>run_resolvers\<close>, and when every resolver is made to append its position to
  a trace, the trace is \<open>0, 1, \<dots>, n - 1\<close>. The list given to the chain constructor holds
  the credentials of exactly the resolvers that returned no error, in their order. The
  returned value is the constructor's result on that list, so no resolver's error is in it
  or causes it.
\<close>

theorem BuildChainedToken_keeps_successes:
  "BuildChainedToken new opts w =
     (new (map fst (filter (\<lambda>r. snd r = None) (fst (run_resolvers opts w)))),
      snd (run_resolvers opts w))
   \<and> length (fst (run_resolvers opts w)) = length opts
   \<and> BuildChainedToken new (map (\<lambda>(i, fn). traced i fn) (enumerate 0 opts)) (w, []) =
       (fst (BuildChainedToken new opts w), snd (BuildChainedToken new opts w), [0..<length opts])"
proof (intro conjI)
  show "BuildChainedToken new opts w =
     (new (map fst (filter (\<lambda>r. snd r = None) (fst (run_resolvers opts w)))),
      snd (run_resolvers opts w))"
    by (simp add: BuildChainedToken_def BuildChainedToken_loop_run)
  show "length (fst (run_resolvers opts w)) = length opts"
    by (rule length_run_resolvers)
  show "BuildChainedToken new (map (\<lambda>(i, fn). traced i fn) (enumerate 0 opts)) (w, []) =
       (fst (BuildChainedToken new opts w), snd (BuildChainedToken new opts w), [0..<length opts])"
    unfolding BuildChainedToken_def BuildChainedToken_loop_traced
    by (simp split: prod.splits)
qed

text \<open>A working, a failing and a working resolver: the chain holds the first and the third.\<close>

theorem BuildChainedToken_keeps_successes_witness:
  "BuildChainedToken example_NewChainedTokenCredential
     [working_resolver 1 ''A'', failing_resolver 2 (ErrorString ''no CLI''), working_resolver 3 ''B'']
     [] = (Inr [''A'', ''B''], [1, 2, 3])"
  using BuildChainedToken_keeps_successes [of example_NewChainedTokenCredential
      "[working_resolver 1 ''A'', failing_resolver 2 (ErrorString ''no CLI''),
        working_resolver 3 ''B'']" "[]"]
  by (simp add: failing_resolver_def working_resolver_def example_NewChainedTokenCredential_def)

text \<open>
  C10. When every resolver fails (also when there is none), \<^verbatim>\<open>BuildChainedToken\<close> still
  calls the chain constructor, with the empty list, and returns exactly its result; the
  errors of the resolvers are in no returned value.
\<close>

theorem BuildChainedToken_all_fail:
  assumes "\<forall>fn\<in>set opts. \<forall>w. snd (fst (fn w)) \<noteq> None"
  shows "BuildChainedToken new opts w = (new [], snd (run_resolvers opts w))"
  using run_resolvers_all_fail [OF assms]
  by (simp add: BuildChainedToken_def BuildChainedToken_loop_run)

text \<open>Two failing resolvers: both are called, and the constructor rejects the empty list.\<close>

theorem BuildChainedToken_all_fail_witness:
  "BuildChainedToken example_NewChainedTokenCredential
     [failing_resolver 1 (ErrorString ''no CLI''), failing_resolver 2 (ErrorString ''no env'')] [] =
     (Inl (ErrorString ''sources must contain at least one TokenCredential''), [1, 2])"
proof -
  let ?opts = "[failing_resolver 1 (ErrorString ''no CLI''),
                failing_resolver 2 (ErrorString ''no env'')]"
  have fail: "\<forall>fn\<in>set ?opts. \<forall>w. snd (fst (fn w)) \<noteq> None"
    by (simp add: failing_resolver_def)
  from BuildChainedToken_all_fail [OF fail, of example_NewChainedTokenCredential "[]"]
  show ?thesis
    by (simp add: failing_resolver_def example_NewChainedTokenCredential_def)
qed

subsection \<open>Credentials from a descriptor\<close>

text \<open>
  C9. For a certificate descriptor whose bytes do not parse under its password,
  \<^verbatim>\<open>GetTokenFromCredential\<close> returns no credential and the parse error wrapped in a message
  that contains the private-key path of the descriptor. The world is unchanged and the
  result is the same whatever the credential constructors of azidentity are: none of them
  is called.
\<close>

theorem GetTokenFromCredential_parse_failure:
  assumes "Type c = CredentialType_pkcs12"
    and "ParseCertificates az (Secret c) (Password c) = Inl e"
  shows "GetTokenFromCredential az (Some c) tenantID clientID w =
           (Inl (Wrapped (''could not parse provided certificate at '' @ PrivateKeyPath c) e), w)
       \<and> strings_Contains
           (Error (Wrapped (''could not parse provided certificate at '' @ PrivateKeyPath c) e))
           (PrivateKeyPath c)
       \<and> GetTokenFromCredential
           (az\<lparr>NewAzureCLICredential := f1, NewEnvironmentCredential := f2,
               NewManagedIdentityCredential := f3, NewWorkloadIdentityCredential := f4,
               NewChainedTokenCredential := f5, NewClientCertificateCredential := f6,
               NewClientSecretCredential := f7\<rparr>) (Some c) tenantID clientID w =
           GetTokenFromCredential az (Some c) tenantID clientID w"
  using assms strings_Contains_append [of "''could not parse provided certificate at ''"
      "PrivateKeyPath c" "'': '' @ Error e"]
  by (simp add: GetTokenFromCredential_def errors_Wrap_def)

text \<open>A corrupted bundle: the error names the path, and the log of constructor calls stays empty.\<close>

theorem GetTokenFromCredential_parse_failure_witness:
  "GetTokenFromCredential example_azidentity (Some corrupted_certificate) ''tenant'' ''client'' [] =
     (Inl (Wrapped ''could not parse provided certificate at /etc/sp.pfx''
             (ErrorString ''pkcs12: error reading P12 data'')), [])"
proof -
  have ty: "Type corrupted_certificate = CredentialType_pkcs12"
    by (simp add: corrupted_certificate_def)
  have parse: "ParseCertificates example_azidentity (Secret corrupted_certificate)
       (Password corrupted_certificate) = Inl (ErrorString ''pkcs12: error reading P12 data'')"
    by (simp add: corrupted_certificate_def example_azidentity_def)
  from GetTokenFromCredential_parse_failure [OF ty parse, of "''tenant''" "''client''" "[]"]
  show ?thesis
    by (simp add: corrupted_certificate_def)
qed

end
